theory Spec2Isabelle
  imports Main "HOL-Library.AList" "HOL-Library.Word"
begin

section \<open>JavaScript values\<close>

text \<open>
  The hooks of \<^verbatim>\<open>src/hooks.ts\<close> move opaque values between the caller and the
  wrapped client: request objects, results, and whatever a rejected promise carries. They
  are modelled by one datatype of JavaScript values:
  \<^item> a number is an integer that a JavaScript number holds exactly, from \<open>-2^53\<close> to
    \<open>2^53 - 1\<close>: \<open>JNum w\<close> is the number \<open>sint w\<close>;
  \<^item> an object is a plain object (its prototype is \<^verbatim>\<open>Object.prototype\<close>), given by its
    own properties with string keys in insertion order; no value is a function, so no
    property of an object is callable;
  \<^item> an \<open>Error\<close> instance is \<open>JErr c n m\<close>: the name of the class that constructed it,
    its \<open>name\<close> property and its \<open>message\<close> property.

  Values are compared structurally; object identity is not modelled.
\<close>

datatype js_value =
    JUndefined
  | JNull
  | JBool bool
  | JNum "54 word"
  | JStr string
  | JArr "js_value list"
  | JObj "(string \<times> js_value) list"
  | JErr string string string

text \<open>\<^verbatim>\<open>err instanceof Error\<close>: true of \<open>Error\<close> and of every class derived from it.\<close>

fun instanceof_Error :: "js_value \<Rightarrow> bool" where
  "instanceof_Error (JErr c n m) = True"
| "instanceof_Error v = False"

text \<open>
  \<^verbatim>\<open>new Error(message)\<close>: an instance of the base class itself, whose \<open>name\<close> is
  \<open>Error\<close>.
\<close>

definition new_Error :: "string \<Rightarrow> js_value" where
  "new_Error message = JErr ''Error'' ''Error'' message"

text \<open>
  The \<open>TypeError\<close> that the language raises when an object has no primitive form. Its
  message is the engine's; the wording here is V8's.
\<close>

definition cannot_convert :: js_value where
  "cannot_convert =
     JErr ''TypeError'' ''TypeError'' ''Cannot convert object to primitive value''"

text \<open>Decimal digits of a natural number, most significant first.\<close>

fun digits :: "nat \<Rightarrow> string" where
  "digits n =
     (if n < 10 then [''0123456789'' ! n]
      else digits (n div 10) @ [''0123456789'' ! (n mod 10)])"

declare digits.simps [simp del]

definition string_of_int :: "int \<Rightarrow> string" where
  "string_of_int i = (if i < 0 then ''-'' @ digits (nat (- i)) else digits (nat i))"

text \<open>\<^verbatim>\<open>Array.prototype.join\<close> on strings.\<close>

fun join :: "string \<Rightarrow> string list \<Rightarrow> string" where
  "join sep [] = []"
| "join sep [s] = s"
| "join sep (s # t # ss) = s @ sep @ join sep (t # ss)"

text \<open>
  The own property \<open>key\<close> of an object with the properties \<open>ps\<close>, \<open>None\<close> when it has
  none. A key written twice has the value written last, as in an object literal.
\<close>

definition own_property :: "(string \<times> js_value) list \<Rightarrow> string \<Rightarrow> js_value option" where
  "own_property ps key = map_of (rev ps) key"

text \<open>
  \<^verbatim>\<open>String(v)\<close>, which returns a string (\<open>Inr\<close>) or throws (\<open>Inl\<close>).
  \<^item> An array joins the string forms of its elements with commas, \<open>null\<close> and
    \<open>undefined\<close> elements giving the empty string; it throws what its first element
    without a string form throws.
  \<^item> A plain object without an own \<open>toString\<close> inherits the one of
    \<^verbatim>\<open>Object.prototype\<close> and gives \<^verbatim>\<open>[object Object]\<close>. An own \<open>toString\<close> is not
    callable here; the conversion then turns to \<open>valueOf\<close>, which is an own property
    and not callable either, or the inherited one, which returns the object itself; no
    primitive is found and the conversion throws a \<open>TypeError\<close>.
  \<^item> An error gives its name and its message, \<^verbatim>\<open>name: message\<close>, or the one of them
    that is not empty.
\<close>

fun js_String :: "js_value \<Rightarrow> js_value + string"
  and js_Strings :: "js_value list \<Rightarrow> js_value + string list" where
  "js_String JUndefined = Inr ''undefined''"
| "js_String JNull = Inr ''null''"
| "js_String (JBool b) = Inr (if b then ''true'' else ''false'')"
| "js_String (JNum w) = Inr (string_of_int (sint w))"
| "js_String (JStr s) = Inr s"
| "js_String (JArr xs) =
     (case js_Strings xs of Inl thrown \<Rightarrow> Inl thrown | Inr ss \<Rightarrow> Inr (join '','' ss))"
| "js_String (JObj ps) =
     (case own_property ps ''toString'' of
        None \<Rightarrow> Inr ''[object Object]''
      | Some v \<Rightarrow> Inl cannot_convert)"
| "js_String (JErr c n m) =
     Inr (if n = [] then m else if m = [] then n else n @ '': '' @ m)"
| "js_Strings [] = Inr []"
| "js_Strings (x # xs) =
     (case (if x = JUndefined \<or> x = JNull then Inr [] else js_String x) of
        Inl thrown \<Rightarrow> Inl thrown
      | Inr s \<Rightarrow>
          (case js_Strings xs of Inl thrown \<Rightarrow> Inl thrown | Inr ss \<Rightarrow> Inr (s # ss)))"

text \<open>
  Object spread \<^verbatim>\<open>{...obj, ...rest}\<close> onto an object \<open>obj\<close> that has no key twice
  (below, the one-property object \<^verbatim>\<open>{apiKey}\<close>): each property of \<open>rest\<close> is
  assigned in turn; an existing key keeps its place and takes the new value, a new key
  goes last.
\<close>

fun object_spread ::
  "(string \<times> js_value) list \<Rightarrow> (string \<times> js_value) list \<Rightarrow> (string \<times> js_value) list" where
  "object_spread obj [] = obj"
| "object_spread obj ((k, v) # rest) = object_spread (AList.update k v obj) rest"


section \<open>Session context (\<^verbatim>\<open>src/context.tsx\<close>)\<close>

text \<open>
  The client class belongs to the SDK the package wraps. A handle is represented by the
  options object its constructor received.
\<close>

datatype client_handle = SafeNestClient "(string \<times> js_value) list"

text \<open>
  \<^verbatim>\<open>SafeNestProviderProps\<close>; \<open>config\<close> is optional. The children play no part in what
  the provider computes and are left out.
\<close>

record SafeNestProviderProps =
  apiKey :: string
  config :: "(string \<times> js_value) list option"

text \<open>
  \<^verbatim>\<open>SafeNestContextValue\<close>. The field \<open>client\<close> is filled with
  \<^verbatim>\<open>clientRef.current!\<close>, an unchecked assertion over a nullable reference, so it is an
  option here.
\<close>

record SafeNestContextValue =
  client :: "client_handle option"
  isReady :: bool

text \<open>
  The hook state of one mounted provider: the \<^verbatim>\<open>useRef\<close> cell, the value cached by
  \<^verbatim>\<open>useMemo\<close> with an empty dependency list (computed by the first render, reused by
  every later one), and, for counting, every handle that a render of this instance has
  constructed, oldest first.
\<close>

record provider_instance =
  clientRef :: "client_handle option"
  memo :: "SafeNestContextValue option"
  constructions :: "client_handle list"

text \<open>A provider that has just been mounted and has not rendered yet.\<close>

definition mounted :: provider_instance where
  "mounted = \<lparr>clientRef = None, memo = None, constructions = []\<rparr>"

text \<open>
  \<^verbatim>\<open>new SafeNestClient({apiKey, ...config})\<close>; spreading an absent \<open>config\<close> adds
  nothing.
\<close>

definition new_SafeNestClient :: "SafeNestProviderProps \<Rightarrow> client_handle" where
  "new_SafeNestClient props =
     SafeNestClient
       (object_spread [(''apiKey'', JStr (apiKey props))]
          (case config props of None \<Rightarrow> [] | Some cfg \<Rightarrow> cfg))"

text \<open>
  One render of \<^verbatim>\<open>SafeNestProvider\<close>: the instance after it and the context value it
  hands to its subtree.
\<close>

definition SafeNestProvider ::
  "SafeNestProviderProps \<Rightarrow> provider_instance \<Rightarrow> provider_instance \<times> SafeNestContextValue" where
  "SafeNestProvider props inst =
     (let inst1 =
        (if clientRef inst = None
         then (let c = new_SafeNestClient props
               in inst\<lparr>clientRef := Some c, constructions := constructions inst @ [c]\<rparr>)
         else inst);
        provided =
          (case memo inst1 of
             None \<Rightarrow> \<lparr>client = clientRef inst1, isReady = True\<rparr>
           | Some cached \<Rightarrow> cached)
      in (inst1\<lparr>memo := Some provided\<rparr>, provided))"

text \<open>Successive renders of one mounted provider, each with its own props.\<close>

fun renders :: "provider_instance \<Rightarrow> SafeNestProviderProps list \<Rightarrow> provider_instance" where
  "renders inst [] = inst"
| "renders inst (props # rest) = renders (fst (SafeNestProvider props inst)) rest"

text \<open>
  Remote calls made through the client so far, oldest first: the method and its arguments.
\<close>

type_synonym call_log = "(string \<times> js_value list) list"

text \<open>
  \<^verbatim>\<open>useSafeNestClient\<close>. The context holds \<open>null\<close> (here \<open>None\<close>) outside every
  provider, since the context object is private to the module and \<open>null\<close> is its default.
  The hook runs in a world with a call log, which it hands back as it found it.
\<close>

definition useSafeNestClient ::
  "SafeNestContextValue option \<Rightarrow> call_log \<Rightarrow> (js_value + SafeNestContextValue) \<times> call_log" where
  "useSafeNestClient context log =
     (case context of
        None \<Rightarrow> (Inl (new_Error ''useSafeNestClient must be used within a SafeNestProvider''), log)
      | Some v \<Rightarrow> (Inr v, log))"


section \<open>Asynchronous operation hooks (\<^verbatim>\<open>src/hooks.ts\<close>)\<close>

text \<open>\<^verbatim>\<open>AsyncState<T>\<close>; \<open>null\<close> is \<open>JNull\<close>.\<close>

record async_state =
  data :: js_value
  loading :: bool
  error :: js_value

text \<open>
  The catalog: one constructor for each hook of \<^verbatim>\<open>src/hooks.ts\<close>, carrying the
  parameters that the hook's \<open>execute\<close> declares. A parameter of an SDK type, or an optional
  one (\<open>undefined\<close> when left out), is a \<open>js_value\<close>; a \<^verbatim>\<open>string\<close> parameter is a string;
  the two \<^verbatim>\<open>params\<close> objects are given by their two fields.
\<close>

datatype invocation =
    useDetectBullying js_value
  | useDetectGrooming js_value
  | useDetectUnsafe js_value
  | useAnalyze js_value
  | useAnalyzeEmotions js_value
  | useGetActionPlan js_value
  | useGenerateReport js_value
  | useDeleteAccountData
  | useExportAccountData
  | useRecordConsent js_value
  | useGetConsentStatus js_value
  | useWithdrawConsent js_value
  | useRectifyData js_value
  | useGetAuditLogs js_value
  | useLogBreach js_value
  | useListBreaches js_value
  | useGetBreach string
  | useUpdateBreachStatus string js_value
  | useAnalyzeVoice js_value
  | useAnalyzeImage js_value
  | useListWebhooks
  | useCreateWebhook js_value
  | useUpdateWebhook string js_value
  | useDeleteWebhook string
  | useTestWebhook string
  | useRegenerateWebhookSecret string
  | useGetPricing
  | useGetPricingDetails
  | useGetUsageHistory js_value
  | useGetUsageByTool js_value
  | useGetUsageMonthly

text \<open>The client method each hook awaits, and the arguments it passes.\<close>

fun remote_call :: "invocation \<Rightarrow> string \<times> js_value list" where
  "remote_call (useDetectBullying input) = (''detectBullying'', [input])"
| "remote_call (useDetectGrooming input) = (''detectGrooming'', [input])"
| "remote_call (useDetectUnsafe input) = (''detectUnsafe'', [input])"
| "remote_call (useAnalyze input) = (''analyze'', [input])"
| "remote_call (useAnalyzeEmotions input) = (''analyzeEmotions'', [input])"
| "remote_call (useGetActionPlan input) = (''getActionPlan'', [input])"
| "remote_call (useGenerateReport input) = (''generateReport'', [input])"
| "remote_call useDeleteAccountData = (''deleteAccountData'', [])"
| "remote_call useExportAccountData = (''exportAccountData'', [])"
| "remote_call (useRecordConsent input) = (''recordConsent'', [input])"
| "remote_call (useGetConsentStatus type) = (''getConsentStatus'', [type])"
| "remote_call (useWithdrawConsent type) = (''withdrawConsent'', [type])"
| "remote_call (useRectifyData input) = (''rectifyData'', [input])"
| "remote_call (useGetAuditLogs options) = (''getAuditLogs'', [options])"
| "remote_call (useLogBreach input) = (''logBreach'', [input])"
| "remote_call (useListBreaches options) = (''listBreaches'', [options])"
| "remote_call (useGetBreach ident) = (''getBreach'', [JStr ident])"
| "remote_call (useUpdateBreachStatus ident input) =
     (''updateBreachStatus'', [JStr ident, input])"
| "remote_call (useAnalyzeVoice input) = (''analyzeVoice'', [input])"
| "remote_call (useAnalyzeImage input) = (''analyzeImage'', [input])"
| "remote_call useListWebhooks = (''listWebhooks'', [])"
| "remote_call (useCreateWebhook input) = (''createWebhook'', [input])"
| "remote_call (useUpdateWebhook webhookId input) = (''updateWebhook'', [JStr webhookId, input])"
| "remote_call (useDeleteWebhook webhookId) = (''deleteWebhook'', [JStr webhookId])"
| "remote_call (useTestWebhook webhookId) = (''testWebhook'', [JStr webhookId])"
| "remote_call (useRegenerateWebhookSecret webhookId) =
     (''regenerateWebhookSecret'', [JStr webhookId])"
| "remote_call useGetPricing = (''getPricing'', [])"
| "remote_call useGetPricingDetails = (''getPricingDetails'', [])"
| "remote_call (useGetUsageHistory days) = (''getUsageHistory'', [days])"
| "remote_call (useGetUsageByTool date) = (''getUsageByTool'', [date])"
| "remote_call useGetUsageMonthly = (''getUsageMonthly'', [])"

text \<open>
  The request object of an invocation: the parameter named \<open>input\<close>, whole or as the
  \<open>input\<close> field of \<open>params\<close>. It is where a caller puts \<open>externalId\<close> and \<open>metadata\<close>.
\<close>

fun request_of :: "invocation \<Rightarrow> js_value option" where
  "request_of (useDetectBullying input) = Some input"
| "request_of (useDetectGrooming input) = Some input"
| "request_of (useDetectUnsafe input) = Some input"
| "request_of (useAnalyze input) = Some input"
| "request_of (useAnalyzeEmotions input) = Some input"
| "request_of (useGetActionPlan input) = Some input"
| "request_of (useGenerateReport input) = Some input"
| "request_of (useRecordConsent input) = Some input"
| "request_of (useRectifyData input) = Some input"
| "request_of (useLogBreach input) = Some input"
| "request_of (useUpdateBreachStatus ident input) = Some input"
| "request_of (useAnalyzeVoice input) = Some input"
| "request_of (useAnalyzeImage input) = Some input"
| "request_of (useCreateWebhook input) = Some input"
| "request_of (useUpdateWebhook webhookId input) = Some input"
| "request_of other = None"

text \<open>
  Modelled from the spec: the result with which the remote service answers a request. The
  service and the SDK client that delivers its answer are not in the repository. The
  specification (section 6, tracking fields) says that every remote call accepts an
  optional \<open>externalId\<close> and an optional \<open>metadata\<close>, both opaque, and echoes them back
  verbatim in the result. So the properties of a successful result are those of the
  analysis, which depend on the operation, followed by the tracking fields of the request
  as the caller supplied them; the analysis contributes no tracking field of its own.
\<close>

definition remote_reply ::
  "(string \<times> js_value) list \<Rightarrow> (string \<times> js_value) list \<Rightarrow> (string \<times> js_value) list" where
  "remote_reply request analysis =
     filter (\<lambda>(key, v). key \<noteq> ''externalId'' \<and> key \<noteq> ''metadata'') analysis
     @ (case own_property request ''externalId'' of
          None \<Rightarrow> []
        | Some v \<Rightarrow> [(''externalId'', v)])
     @ (case own_property request ''metadata'' of
          None \<Rightarrow> []
        | Some v \<Rightarrow> [(''metadata'', v)])"

text \<open>
  The promise that one call of \<open>execute\<close> has returned to its caller.
\<close>

datatype promise = Pending | Fulfilled js_value | Rejected js_value

text \<open>
  One use of a hook in a mounted component: the value last handed to \<^verbatim>\<open>setState\<close>,
  the remote calls issued so far, and the promises returned by \<open>execute\<close>, the k-th call of
  \<open>execute\<close> owning \<open>promises ! k\<close>.
\<close>

record adapter =
  state :: async_state
  calls :: call_log
  promises :: "promise list"

text \<open>The hook as \<^verbatim>\<open>useState\<close> initialises it.\<close>

definition initial :: adapter where
  "initial =
     \<lparr>state = \<lparr>data = JNull, loading = False, error = JNull\<rparr>, calls = [], promises = []\<rparr>"

definition setState :: "async_state \<Rightarrow> adapter \<Rightarrow> adapter" where
  "setState s a = a\<lparr>state := s\<rparr>"

text \<open>
  \<open>execute\<close> from its call to the \<^verbatim>\<open>await\<close>: the state is set, the client method is
  called, and the caller holds a pending promise. The client's methods are asynchronous,
  so the outcome of the call arrives in a later turn of the event loop.
\<close>

definition execute_begin :: "invocation \<Rightarrow> adapter \<Rightarrow> adapter" where
  "execute_begin req a =
     (let a1 = setState \<lparr>data = JNull, loading = True, error = JNull\<rparr> a
      in a1\<lparr>calls := calls a1 @ [remote_call req], promises := promises a1 @ [Pending]\<rparr>)"

text \<open>How the awaited remote call settles: with a result, or with a thrown value.\<close>

datatype settlement = Resolves js_value | Rejects js_value

text \<open>
  The first statement of the \<^verbatim>\<open>catch\<close> block,
  \<^verbatim>\<open>err instanceof Error ? err : new Error(String(err))\<close>: the error to publish
  (\<open>Inr\<close>), or what \<^verbatim>\<open>String(err)\<close> throws (\<open>Inl\<close>).
\<close>

definition to_Error :: "js_value \<Rightarrow> js_value + js_value" where
  "to_Error err =
     (if instanceof_Error err then Inr err
      else (case js_String err of
              Inl thrown \<Rightarrow> Inl thrown
            | Inr s \<Rightarrow> Inr (new_Error s)))"

text \<open>
  \<open>execute\<close> from the \<^verbatim>\<open>await\<close> to its end, for the call that owns promise \<open>k\<close>:
  the \<^verbatim>\<open>try\<close> branch on a result, the \<^verbatim>\<open>catch\<close> branch on a thrown value. When
  the first statement of the \<^verbatim>\<open>catch\<close> block throws, the block ends there: no state
  is set, and the promise is rejected with what was thrown.
\<close>

definition execute_resume :: "nat \<Rightarrow> settlement \<Rightarrow> adapter \<Rightarrow> adapter" where
  "execute_resume k s a =
     (case s of
        Resolves result \<Rightarrow>
          (let a1 = setState \<lparr>data = result, loading = False, error = JNull\<rparr> a
           in a1\<lparr>promises := (promises a1)[k := Fulfilled result]\<rparr>)
      | Rejects err \<Rightarrow>
          (case to_Error err of
             Inl thrown \<Rightarrow> a\<lparr>promises := (promises a)[k := Rejected thrown]\<rparr>
           | Inr e \<Rightarrow>
               (let a1 = setState \<lparr>data = JNull, loading = False, error = e\<rparr> a
                in a1\<lparr>promises := (promises a1)[k := Rejected e]\<rparr>)))"

definition reset :: "adapter \<Rightarrow> adapter" where
  "reset a = setState \<lparr>data = JNull, loading = False, error = JNull\<rparr> a"

text \<open>
  What can happen to an adapter, one event per turn of the single-threaded event loop:
  the component calls \<open>execute\<close> or \<open>reset\<close>, or the remote call of the k-th \<open>execute\<close>
  settles. A call settles once, and only if it was made: any other settlement is ignored.
\<close>

datatype event = Execute invocation | Settle nat settlement | Reset

fun step :: "adapter \<Rightarrow> event \<Rightarrow> adapter" where
  "step a (Execute req) = execute_begin req a"
| "step a (Settle k s) =
     (if k < length (promises a) \<and> promises a ! k = Pending then execute_resume k s a else a)"
| "step a Reset = reset a"

fun run :: "adapter \<Rightarrow> event list \<Rightarrow> adapter" where
  "run a [] = a"
| "run a (e # es) = run (step a e) es"


section \<open>Sample values\<close>

text \<open>
  Requests, results and failures used to run the definitions on concrete inputs: a bullying
  check and a stubbed result for it, a second request with its own result, the properties
  of a request that carries tracking fields, an authentication failure as the SDK raises
  it, and a plain object whose own \<open>toString\<close> is the number 1.
\<close>

definition bullying_input :: js_value where
  "bullying_input = JObj [(''text'', JStr ''you are worthless'')]"

definition bullying_result :: js_value where
  "bullying_result =
     JObj [(''isBullying'', JBool True), (''severity'', JStr ''high''),
           (''bullyingType'', JArr [JStr ''insult''])]"

definition other_input :: js_value where
  "other_input = JObj [(''text'', JStr ''hello'')]"

definition other_result :: js_value where
  "other_result = JObj [(''isBullying'', JBool False)]"

definition tracked_request :: "(string \<times> js_value) list" where
  "tracked_request =
     [(''text'', JStr ''Message to check''), (''externalId'', JStr ''msg_12345''),
      (''metadata'', JObj [(''userId'', JStr ''usr_abc''), (''sessionId'', JStr ''sess_xyz'')])]"

definition auth_failure :: js_value where
  "auth_failure = JErr ''AuthenticationError'' ''AuthenticationError'' ''Invalid API key''"

definition unprintable :: js_value where
  "unprintable = JObj [(''toString'', JNum 1)]"


section \<open>The parts of \<open>execute\<close> and \<open>reset\<close>, field by field\<close>

lemma state_execute_begin:
  "state (execute_begin req a) = \<lparr>data = JNull, loading = True, error = JNull\<rparr>"
  by (simp add: execute_begin_def setState_def)

lemma promises_execute_begin:
  "promises (execute_begin req a) = promises a @ [Pending]"
  by (simp add: execute_begin_def setState_def)

lemma calls_execute_begin:
  "calls (execute_begin req a) = calls a @ [remote_call req]"
  by (simp add: execute_begin_def setState_def)



lemma to_Error_of_Error: "instanceof_Error v \<Longrightarrow> to_Error v = Inr v"
  by (simp add: to_Error_def)

lemma to_Error_of_other:
  "\<not> instanceof_Error v \<Longrightarrow> js_String v = Inr s \<Longrightarrow> to_Error v = Inr (new_Error s)"
  by (simp add: to_Error_def)

lemma to_Error_throws:
  "\<not> instanceof_Error v \<Longrightarrow> js_String v = Inl thrown \<Longrightarrow> to_Error v = Inl thrown"
  by (simp add: to_Error_def)

lemma to_Error_is_Error: "to_Error v = Inr e \<Longrightarrow> instanceof_Error e"
  by (auto simp add: to_Error_def new_Error_def split: if_splits sum.splits)

lemma state_execute_resume_Resolves:
  "state (execute_resume k (Resolves result) a) =
     \<lparr>data = result, loading = False, error = JNull\<rparr>"
  by (simp add: execute_resume_def setState_def)

lemma promises_execute_resume_Resolves:
  "promises (execute_resume k (Resolves result) a) = (promises a)[k := Fulfilled result]"
  by (simp add: execute_resume_def setState_def)

lemma state_execute_resume_Rejects:
  "to_Error err = Inr e \<Longrightarrow>
   state (execute_resume k (Rejects err) a) = \<lparr>data = JNull, loading = False, error = e\<rparr>"
  by (simp add: execute_resume_def setState_def)

lemma promises_execute_resume_Rejects:
  "to_Error err = Inr e \<Longrightarrow>
   promises (execute_resume k (Rejects err) a) = (promises a)[k := Rejected e]"
  by (simp add: execute_resume_def setState_def)

lemma state_execute_resume_throws:
  "to_Error err = Inl thrown \<Longrightarrow> state (execute_resume k (Rejects err) a) = state a"
  by (simp add: execute_resume_def)

lemma promises_execute_resume_throws:
  "to_Error err = Inl thrown \<Longrightarrow>
   promises (execute_resume k (Rejects err) a) = (promises a)[k := Rejected thrown]"
  by (simp add: execute_resume_def)

lemma calls_execute_resume: "calls (execute_resume k s a) = calls a"
  by (cases s) (simp_all add: execute_resume_def setState_def Let_def split: sum.splits)

lemma length_promises_execute_resume:
  "length (promises (execute_resume k s a)) = length (promises a)"
  by (cases s) (simp_all add: execute_resume_def setState_def Let_def split: sum.splits)

lemma other_promise_execute_resume:
  "j \<noteq> k \<Longrightarrow> promises (execute_resume k s a) ! j = promises a ! j"
  by (cases s) (simp_all add: execute_resume_def setState_def Let_def split: sum.splits)

lemma own_promise_execute_resume:
  "k < length (promises a) \<Longrightarrow> promises (execute_resume k s a) ! k \<noteq> Pending"
  by (cases s) (simp_all add: execute_resume_def setState_def Let_def split: sum.splits)

lemma step_Settle_pending:
  "k < length (promises a) \<Longrightarrow> promises a ! k = Pending \<Longrightarrow>
   step a (Settle k s) = execute_resume k s a"
  by simp

lemma two_pending:
  "promises (execute_begin second (execute_begin first a)) = promises a @ [Pending, Pending]"
  by (simp add: promises_execute_begin)

lemma run_execute_then_settle:
  "run a [Execute req, Settle (length (promises a)) s] =
   execute_resume (length (promises a)) s (execute_begin req a)"
  by (simp add: promises_execute_begin)

text \<open>
  Two overlapping calls, the second settling first and the first settling last, and the
  other way round: each settlement finds its call pending.
\<close>

lemma run_second_then_first:
  "run a [Execute first, Execute second,
          Settle (Suc (length (promises a))) s2, Settle (length (promises a)) s1] =
   execute_resume (length (promises a)) s1
     (execute_resume (Suc (length (promises a))) s2
        (execute_begin second (execute_begin first a)))"
proof -
  let ?k = "length (promises a)"
  let ?b = "execute_begin second (execute_begin first a)"
  have k1: "Suc ?k < length (promises ?b)" and p1: "promises ?b ! Suc ?k = Pending"
    by (simp_all add: two_pending nth_append)
  have c0: "?k < length (promises (execute_resume (Suc ?k) s2 ?b))"
    "promises (execute_resume (Suc ?k) s2 ?b) ! ?k = Pending"
    by (simp_all add: length_promises_execute_resume other_promise_execute_resume
        two_pending nth_append)
  show ?thesis
    by (simp only: run.simps step.simps(1) step_Settle_pending [OF k1 p1]
        step_Settle_pending [OF c0])
qed

lemma run_first_then_second:
  "run a [Execute first, Execute second,
          Settle (length (promises a)) s1, Settle (Suc (length (promises a))) s2] =
   execute_resume (Suc (length (promises a))) s2
     (execute_resume (length (promises a)) s1
        (execute_begin second (execute_begin first a)))"
proof -
  let ?k = "length (promises a)"
  let ?b = "execute_begin second (execute_begin first a)"
  have k0: "?k < length (promises ?b)" and p0: "promises ?b ! ?k = Pending"
    by (simp_all add: two_pending nth_append)
  have d1: "Suc ?k < length (promises (execute_resume ?k s1 ?b))"
    "promises (execute_resume ?k s1 ?b) ! Suc ?k = Pending"
    by (simp_all add: length_promises_execute_resume other_promise_execute_resume
        two_pending nth_append)
  show ?thesis
    by (simp only: run.simps step.simps(1) step_Settle_pending [OF k0 p0]
        step_Settle_pending [OF d1])
qed

lemma request_is_argument:
  "request_of req = Some input \<Longrightarrow> input \<in> set (snd (remote_call req))"
  by (cases req) simp_all

text \<open>The reply of the remote service has the tracking fields of the request.\<close>

lemma remote_reply_externalId:
  "own_property (remote_reply request analysis) ''externalId'' =
   own_property request ''externalId''"
proof -
  have "map_of (rev (filter (\<lambda>(key, v). key \<noteq> ''externalId'' \<and> key \<noteq> ''metadata'') analysis))
          ''externalId'' = None"
    by (induction analysis) (auto split: if_splits)
  then show ?thesis
    by (simp add: remote_reply_def own_property_def split: option.splits)
qed

lemma remote_reply_metadata:
  "own_property (remote_reply request analysis) ''metadata'' =
   own_property request ''metadata''"
proof -
  have "map_of (rev (filter (\<lambda>(key, v). key \<noteq> ''externalId'' \<and> key \<noteq> ''metadata'') analysis))
          ''metadata'' = None"
    by (induction analysis) (auto split: if_splits)
  then show ?thesis
    by (simp add: remote_reply_def own_property_def split: option.splits)
qed

text \<open>
  The \<^verbatim>\<open>catch\<close> branch where its first statement returns: the thrown value is an
  error and is published as it is, or it has a string form and is published as
  \<open>new Error\<close> of that string. What is published is an \<open>Error\<close> instance, the state is
  \<open>{data: null, loading: false, error: E}\<close>, and the promise is rejected with the same
  \<open>E\<close>.
\<close>

lemma catch_publishes_error:
  assumes "k < length (promises a)" and "promises a ! k = Pending"
    and "instanceof_Error v \<and> E = v \<or> \<not> instanceof_Error v \<and> js_String v = Inr s \<and> E = new_Error s"
  shows "instanceof_Error E
    \<and> state (step a (Settle k (Rejects v))) = \<lparr>data = JNull, loading = False, error = E\<rparr>
    \<and> promises (step a (Settle k (Rejects v))) ! k = Rejected E"
proof -
  have e: "to_Error v = Inr E"
    using assms(3) by (auto simp add: to_Error_of_Error to_Error_of_other)
  show ?thesis
    using assms(1,2) to_Error_is_Error [OF e]
    by (simp add: state_execute_resume_Rejects [OF e] promises_execute_resume_Rejects [OF e])
qed


section \<open>The operation hooks\<close>

text \<open>
  C1. Whatever the hook, its input and the adapter's earlier state (stale data of an
  earlier success included), the call of \<open>execute\<close> leaves the state at
  \<open>{data: null, loading: true, error: null}\<close> in the same turn, while the promise it
  returns is still pending: the remote call has been issued and has not settled.
\<close>

theorem execute_sets_loading_synchronously:
  "state (step a (Execute req)) = \<lparr>data = JNull, loading = True, error = JNull\<rparr>
   \<and> promises (step a (Execute req)) ! length (promises a) = Pending
   \<and> calls (step a (Execute req)) = calls a @ [remote_call req]"
  by (simp add: state_execute_begin promises_execute_begin calls_execute_begin)

text \<open>
  C2. When the remote call of a pending \<open>execute\<close> resolves with \<open>result\<close>, the state
  becomes \<open>{data: result, loading: false, error: null}\<close> and the promise that this
  \<open>execute\<close> returned is fulfilled with the same \<open>result\<close>.
\<close>

theorem success_publishes_result:
  assumes "k < length (promises a)" and "promises a ! k = Pending"
  shows "state (step a (Settle k (Resolves result))) =
           \<lparr>data = result, loading = False, error = JNull\<rparr>
         \<and> promises (step a (Settle k (Resolves result))) ! k = Fulfilled result"
  using assms
  by (simp add: state_execute_resume_Resolves promises_execute_resume_Resolves)

text \<open>
  The bullying check against its stub: the call is pending after \<open>execute\<close>, and once it
  resolves the state holds the stubbed result, whose \<open>isBullying\<close> is \<open>true\<close>.
\<close>

theorem success_publishes_result_witness:
  "0 < length (promises (step initial (Execute (useDetectBullying bullying_input))))
   \<and> promises (step initial (Execute (useDetectBullying bullying_input))) ! 0 = Pending
   \<and> state (run initial [Execute (useDetectBullying bullying_input),
                          Settle 0 (Resolves bullying_result)]) =
       \<lparr>data = bullying_result, loading = False, error = JNull\<rparr>
   \<and> promises (run initial [Execute (useDetectBullying bullying_input),
                             Settle 0 (Resolves bullying_result)]) ! 0 =
       Fulfilled bullying_result
   \<and> data (state (run initial [Execute (useDetectBullying bullying_input),
                                Settle 0 (Resolves bullying_result)])) =
       JObj [(''isBullying'', JBool True), (''severity'', JStr ''high''),
             (''bullyingType'', JArr [JStr ''insult''])]"
proof -
  let ?a = "step initial (Execute (useDetectBullying bullying_input))"
  have h1: "0 < length (promises ?a)"
    by (simp add: promises_execute_begin)
  have h2: "promises ?a ! 0 = Pending"
    by (simp add: promises_execute_begin initial_def)
  have r: "run initial [Execute (useDetectBullying bullying_input),
                        Settle 0 (Resolves bullying_result)] =
           step ?a (Settle 0 (Resolves bullying_result))"
    by simp
  show ?thesis
    unfolding r
    using h1 h2 success_publishes_result [OF h1 h2, of bullying_result]
    by (simp add: bullying_result_def)
qed

text \<open>
  C3. When the remote call of a pending \<open>execute\<close> fails with a thrown value \<open>v\<close>,
  \<open>execute\<close> is to publish an error \<open>E\<close> made from \<open>v\<close>, in the state
  \<open>{data: null, loading: false, error: E}\<close> and as the rejection of its promise. It does
  so for every \<open>v\<close> that is an error or has a string form. It does not for a \<open>v\<close> whose
  string form does not exist: when the bullying check is rejected with the plain object
  \<open>{toString: 1}\<close>, \<^verbatim>\<open>String(err)\<close> throws inside the \<^verbatim>\<open>catch\<close> block, the state
  stays \<open>{data: null, loading: true, error: null}\<close>, and the promise is rejected with
  the \<open>TypeError\<close> of the conversion, which the state does not hold.
\<close>

theorem rejection_without_string_form_leaves_loading:
  "to_Error unprintable = Inl cannot_convert
   \<and> state (run initial [Execute (useDetectBullying other_input),
                          Settle 0 (Rejects unprintable)]) =
       \<lparr>data = JNull, loading = True, error = JNull\<rparr>
   \<and> promises (run initial [Execute (useDetectBullying other_input),
                             Settle 0 (Rejects unprintable)]) ! 0 =
       Rejected (JErr ''TypeError'' ''TypeError'' ''Cannot convert object to primitive value'')"
proof -
  have t: "to_Error unprintable = Inl cannot_convert"
    by (simp add: to_Error_def unprintable_def own_property_def)
  have r: "run initial [Execute (useDetectBullying other_input),
                        Settle 0 (Rejects unprintable)] =
           execute_resume 0 (Rejects unprintable)
             (execute_begin (useDetectBullying other_input) initial)"
    by (simp add: promises_execute_begin initial_def)
  show ?thesis
    unfolding r
    by (simp add: t state_execute_resume_throws promises_execute_resume_throws
        state_execute_begin promises_execute_begin initial_def cannot_convert_def)
qed

text \<open>
  C4, in the form that holds of the code. Two calls of \<open>execute\<close> overlap on one
  adapter, and each settlement is a result, or a failure that is an error or has a string
  form. Whichever remote call settles last writes the final state: the first call's
  outcome when the first call settles after the second, the second call's outcome when
  the settlements come in the order of the calls. Nothing is queued or cancelled: both
  remote calls are issued at once, and the call that is overtaken still settles its own
  promise.
\<close>

theorem last_settled_wins:
  assumes "k = length (promises a)"
    and "to_Error v1 = Inr e1" and "to_Error v2 = Inr e2"
  shows "state (run a [Execute first, Execute second,
                       Settle (Suc k) s2, Settle k (Resolves r1)]) =
           \<lparr>data = r1, loading = False, error = JNull\<rparr>
    \<and> state (run a [Execute first, Execute second,
                     Settle (Suc k) s2, Settle k (Rejects v1)]) =
           \<lparr>data = JNull, loading = False, error = e1\<rparr>
    \<and> state (run a [Execute first, Execute second,
                     Settle k s1, Settle (Suc k) (Resolves r2)]) =
           \<lparr>data = r2, loading = False, error = JNull\<rparr>
    \<and> state (run a [Execute first, Execute second,
                     Settle k s1, Settle (Suc k) (Rejects v2)]) =
           \<lparr>data = JNull, loading = False, error = e2\<rparr>
    \<and> calls (run a [Execute first, Execute second, Settle (Suc k) s2, Settle k s1]) =
           calls a @ [remote_call first, remote_call second]
    \<and> promises (run a [Execute first, Execute second,
                        Settle (Suc k) (Resolves r2), Settle k s1]) ! Suc k = Fulfilled r2
    \<and> promises (run a [Execute first, Execute second,
                        Settle (Suc k) (Rejects v2), Settle k s1]) ! Suc k = Rejected e2
    \<and> promises (run a [Execute first, Execute second, Settle (Suc k) s2, Settle k s1]) ! k
         \<noteq> Pending"
proof -
  let ?b = "execute_begin second (execute_begin first a)"
  have len: "length (promises ?b) = Suc (Suc k)"
    by (simp add: two_pending assms(1))
  have A: "state (run a [Execute first, Execute second,
                       Settle (Suc k) s2, Settle k (Resolves r1)]) =
           \<lparr>data = r1, loading = False, error = JNull\<rparr>"
    unfolding assms(1) run_second_then_first by (rule state_execute_resume_Resolves)
  have B: "state (run a [Execute first, Execute second,
                     Settle (Suc k) s2, Settle k (Rejects v1)]) =
           \<lparr>data = JNull, loading = False, error = e1\<rparr>"
    unfolding assms(1) run_second_then_first
    using assms(2) by (rule state_execute_resume_Rejects)
  have C: "state (run a [Execute first, Execute second,
                     Settle k s1, Settle (Suc k) (Resolves r2)]) =
           \<lparr>data = r2, loading = False, error = JNull\<rparr>"
    unfolding assms(1) run_first_then_second by (rule state_execute_resume_Resolves)
  have D: "state (run a [Execute first, Execute second,
                     Settle k s1, Settle (Suc k) (Rejects v2)]) =
           \<lparr>data = JNull, loading = False, error = e2\<rparr>"
    unfolding assms(1) run_first_then_second
    using assms(3) by (rule state_execute_resume_Rejects)
  have E: "calls (run a [Execute first, Execute second, Settle (Suc k) s2, Settle k s1]) =
           calls a @ [remote_call first, remote_call second]"
    unfolding assms(1) run_second_then_first
    by (simp add: calls_execute_resume calls_execute_begin)
  have F: "promises (run a [Execute first, Execute second,
                        Settle (Suc k) (Resolves r2), Settle k s1]) ! Suc k = Fulfilled r2"
    unfolding assms(1) run_second_then_first
    by (simp add: other_promise_execute_resume promises_execute_resume_Resolves two_pending)
  have G: "promises (run a [Execute first, Execute second,
                        Settle (Suc k) (Rejects v2), Settle k s1]) ! Suc k = Rejected e2"
    unfolding assms(1) run_second_then_first
    by (simp add: other_promise_execute_resume promises_execute_resume_Rejects [OF assms(3)]
        two_pending)
  have H: "promises (run a [Execute first, Execute second, Settle (Suc k) s2, Settle k s1]) ! k
         \<noteq> Pending"
    unfolding assms(1) run_second_then_first
    by (rule own_promise_execute_resume)
      (simp add: length_promises_execute_resume two_pending)
  from A B C D E F G H show ?thesis
    by (intro conjI)
qed

text \<open>
  From the fresh adapter: the second call is rejected first, with the string
  \<open>offline\<close>; the first call then settles, with its result or with an authentication
  failure, and the state holds the first call's outcome.
\<close>

theorem last_settled_wins_witness:
  "(0::nat) = length (promises initial)
   \<and> to_Error auth_failure = Inr auth_failure
   \<and> to_Error (JStr ''offline'') = Inr (JErr ''Error'' ''Error'' ''offline'')
   \<and> state (run initial [Execute (useDetectBullying bullying_input),
                          Execute (useDetectBullying other_input),
                          Settle (Suc 0) (Rejects (JStr ''offline'')),
                          Settle 0 (Resolves bullying_result)]) =
       \<lparr>data = bullying_result, loading = False, error = JNull\<rparr>
   \<and> state (run initial [Execute (useDetectBullying bullying_input),
                          Execute (useDetectBullying other_input),
                          Settle (Suc 0) (Rejects (JStr ''offline'')),
                          Settle 0 (Rejects auth_failure)]) =
       \<lparr>data = JNull, loading = False, error = auth_failure\<rparr>
   \<and> promises (run initial [Execute (useDetectBullying bullying_input),
                             Execute (useDetectBullying other_input),
                             Settle (Suc 0) (Rejects (JStr ''offline'')),
                             Settle 0 (Resolves bullying_result)]) ! Suc 0 =
       Rejected (JErr ''Error'' ''Error'' ''offline'')"
proof -
  have h0: "(0::nat) = length (promises initial)"
    by (simp add: initial_def)
  have h1: "to_Error auth_failure = Inr auth_failure"
    by (simp add: to_Error_def auth_failure_def)
  have h2: "to_Error (JStr ''offline'') = Inr (JErr ''Error'' ''Error'' ''offline'')"
    by (simp add: to_Error_def new_Error_def)
  from last_settled_wins [OF h0 h1 h2,
      of "useDetectBullying bullying_input" "useDetectBullying other_input"
         "Rejects (JStr ''offline'')" bullying_result "Resolves bullying_result"
         other_result]
  show ?thesis
    using h0 h1 h2 by (intro conjI) (elim conjE, assumption)+
qed

text \<open>
  The scenario as the specification words it: the first call's remote call settles after
  the second's. The final state then holds the first call's result and not the second's.
\<close>

theorem second_call_does_not_win_counterexample:
  "state (run initial [Execute (useDetectBullying bullying_input),
                       Execute (useDetectBullying other_input),
                       Settle 1 (Resolves other_result),
                       Settle 0 (Resolves bullying_result)]) =
     \<lparr>data = bullying_result, loading = False, error = JNull\<rparr>
   \<and> state (run initial [Execute (useDetectBullying bullying_input),
                         Execute (useDetectBullying other_input),
                         Settle 1 (Resolves other_result),
                         Settle 0 (Resolves bullying_result)]) \<noteq>
     \<lparr>data = other_result, loading = False, error = JNull\<rparr>"
  by (simp add: initial_def execute_begin_def execute_resume_def setState_def
      bullying_result_def other_result_def)

text \<open>
  C5. From any earlier state \<open>reset\<close> sets the state to
  \<open>{data: null, loading: false, error: null}\<close>, and a second \<open>reset\<close> changes nothing.
\<close>

theorem reset_idempotent:
  "state (reset a) = \<lparr>data = JNull, loading = False, error = JNull\<rparr>
   \<and> reset (reset a) = reset a"
  by (simp add: reset_def setState_def)



text \<open>
  C9. An \<open>execute\<close> call hands its request object to the remote call as it is, the
  remote call is issued once, and what the remote call resolves with is what the state
  and the returned promise hold. With the remote service answering as the specification
  describes it, the published result has \<open>externalId\<close> and \<open>metadata\<close> equal to those
  of the request: the value the caller supplied, or none where the caller supplied none.
\<close>

theorem tracking_fields_round_trip:
  assumes "request_of req = Some (JObj ps)" and "k = length (promises a)"
  shows "JObj ps \<in> set (snd (remote_call req))
    \<and> calls (run a [Execute req, Settle k (Resolves (JObj (remote_reply ps analysis)))]) =
        calls a @ [remote_call req]
    \<and> data (state (run a [Execute req,
                           Settle k (Resolves (JObj (remote_reply ps analysis)))])) =
        JObj (remote_reply ps analysis)
    \<and> promises (run a [Execute req,
                        Settle k (Resolves (JObj (remote_reply ps analysis)))]) ! k =
        Fulfilled (JObj (remote_reply ps analysis))
    \<and> own_property (remote_reply ps analysis) ''externalId'' = own_property ps ''externalId''
    \<and> own_property (remote_reply ps analysis) ''metadata'' = own_property ps ''metadata''"
proof -
  have "JObj ps \<in> set (snd (remote_call req))"
    using assms(1) by (rule request_is_argument)
  then show ?thesis
    unfolding assms(2) run_execute_then_settle
    by (simp add: calls_execute_resume calls_execute_begin state_execute_resume_Resolves
        promises_execute_resume_Resolves promises_execute_begin
        remote_reply_externalId remote_reply_metadata)
qed

text \<open>
  A bullying check that carries both tracking fields: the client receives the request
  object, and the result that comes back has the two fields as the caller wrote them.
\<close>

theorem tracking_fields_round_trip_witness:
  "request_of (useDetectBullying (JObj tracked_request)) = Some (JObj tracked_request)
   \<and> (0::nat) = length (promises initial)
   \<and> calls (run initial [Execute (useDetectBullying (JObj tracked_request)),
                          Settle 0 (Resolves (JObj (remote_reply tracked_request
                                                      [(''isBullying'', JBool False)])))]) =
       [(''detectBullying'', [JObj tracked_request])]
   \<and> data (state (run initial [Execute (useDetectBullying (JObj tracked_request)),
                          Settle 0 (Resolves (JObj (remote_reply tracked_request
                                                      [(''isBullying'', JBool False)])))])) =
       JObj [(''isBullying'', JBool False), (''externalId'', JStr ''msg_12345''),
             (''metadata'',
              JObj [(''userId'', JStr ''usr_abc''), (''sessionId'', JStr ''sess_xyz'')])]
   \<and> own_property (remote_reply tracked_request [(''isBullying'', JBool False)])
         ''externalId'' = Some (JStr ''msg_12345'')
   \<and> own_property (remote_reply tracked_request [(''isBullying'', JBool False)])
         ''metadata'' =
       Some (JObj [(''userId'', JStr ''usr_abc''), (''sessionId'', JStr ''sess_xyz'')])"
proof -
  have h1: "request_of (useDetectBullying (JObj tracked_request)) = Some (JObj tracked_request)"
    by simp
  have h2: "(0::nat) = length (promises initial)"
    by (simp add: initial_def)
  have c: "calls initial = []"
    by (simp add: initial_def)
  have v: "remote_reply tracked_request [(''isBullying'', JBool False)] =
       [(''isBullying'', JBool False), (''externalId'', JStr ''msg_12345''),
        (''metadata'',
         JObj [(''userId'', JStr ''usr_abc''), (''sessionId'', JStr ''sess_xyz'')])]"
    by (simp add: remote_reply_def tracked_request_def own_property_def)
  have w: "own_property tracked_request ''externalId'' = Some (JStr ''msg_12345'')"
    "own_property tracked_request ''metadata'' =
       Some (JObj [(''userId'', JStr ''usr_abc''), (''sessionId'', JStr ''sess_xyz'')])"
    by (simp_all add: tracked_request_def own_property_def)
  from tracking_fields_round_trip [OF h1 h2, of "[(''isBullying'', JBool False)]"]
  show ?thesis
    using h1 h2 unfolding c w by (simp add: v del: run.simps)
qed


section \<open>The provider and the client lookup\<close>

lemma first_render:
  "fst (SafeNestProvider props mounted) =
     \<lparr>clientRef = Some (new_SafeNestClient props),
      memo = Some \<lparr>client = Some (new_SafeNestClient props), isReady = True\<rparr>,
      constructions = [new_SafeNestClient props]\<rparr>"
  by (simp add: SafeNestProvider_def mounted_def Let_def)

lemma provided_first:
  "snd (SafeNestProvider props mounted) =
     \<lparr>client = Some (new_SafeNestClient props), isReady = True\<rparr>"
  by (simp add: SafeNestProvider_def mounted_def Let_def)

lemma later_render:
  "clientRef inst = Some c \<Longrightarrow> memo inst = Some v \<Longrightarrow>
   SafeNestProvider props inst = (inst, v)"
  by (simp add: SafeNestProvider_def Let_def)

lemma later_renders:
  "clientRef inst = Some c \<Longrightarrow> memo inst = Some v \<Longrightarrow> renders inst later = inst"
  by (induction later) (simp_all add: later_render)

lemma renders_mounted:
  "renders mounted (first # later) =
     \<lparr>clientRef = Some (new_SafeNestClient first),
      memo = Some \<lparr>client = Some (new_SafeNestClient first), isReady = True\<rparr>,
      constructions = [new_SafeNestClient first]\<rparr>"
  by (simp add: first_render later_renders)

lemma provided_after_renders:
  "snd (SafeNestProvider props (renders mounted (first # later))) =
     \<lparr>client = Some (new_SafeNestClient first), isReady = True\<rparr>"
  by (simp only: renders_mounted) (simp add: later_render)

text \<open>
  C6, in the form that holds of the code. Outside every provider the client lookup fails,
  whatever the rest of the world, with the same value each time: an instance of the base class \<open>Error\<close> with the
  message \<open>useSafeNestClient must be used within a SafeNestProvider\<close>. It makes no
  remote call.
\<close>

theorem lookup_outside_provider_throws_generic_error:
  "useSafeNestClient None log =
     (Inl (JErr ''Error'' ''Error''
             ''useSafeNestClient must be used within a SafeNestProvider''), log)"
  by (simp add: useSafeNestClient_def new_Error_def)

text \<open>
  What the lookup throws is built by \<open>new Error\<close>; it is not an instance of a class of
  its own named \<open>ContextMissingError\<close>.
\<close>

theorem lookup_error_is_generic_counterexample:
  "fst (useSafeNestClient None []) =
     Inl (new_Error ''useSafeNestClient must be used within a SafeNestProvider'')
   \<and> fst (useSafeNestClient None []) \<noteq>
     Inl (JErr ''ContextMissingError'' ''ContextMissingError''
            ''useSafeNestClient must be used within a SafeNestProvider'')"
  by (simp add: useSafeNestClient_def new_Error_def)

text \<open>
  C7. A render of the provider constructs a client handle exactly when the instance holds
  none. A mounted provider therefore constructs one handle, in its first render and from
  the props of that render; later renders construct nothing and keep handing out that
  handle, whatever \<open>apiKey\<close> and \<open>config\<close> they are given.
\<close>

theorem client_constructed_once:
  "clientRef (fst (SafeNestProvider props inst)) =
     (if clientRef inst = None then Some (new_SafeNestClient props) else clientRef inst)
   \<and> constructions (fst (SafeNestProvider props inst)) =
     (if clientRef inst = None then constructions inst @ [new_SafeNestClient props]
      else constructions inst)
   \<and> clientRef (renders mounted (first # later)) = Some (new_SafeNestClient first)
   \<and> constructions (renders mounted (first # later)) = [new_SafeNestClient first]
   \<and> client (snd (SafeNestProvider props (renders mounted (first # later)))) =
       Some (new_SafeNestClient first)"
proof -
  have a: "clientRef (fst (SafeNestProvider props inst)) =
     (if clientRef inst = None then Some (new_SafeNestClient props) else clientRef inst)"
    by (simp add: SafeNestProvider_def Let_def)
  have b: "constructions (fst (SafeNestProvider props inst)) =
     (if clientRef inst = None then constructions inst @ [new_SafeNestClient props]
      else constructions inst)"
    by (simp add: SafeNestProvider_def Let_def)
  have c: "clientRef (renders mounted (first # later)) = Some (new_SafeNestClient first)"
    by (simp only: renders_mounted) simp
  have d: "constructions (renders mounted (first # later)) = [new_SafeNestClient first]"
    by (simp only: renders_mounted) simp
  have e: "client (snd (SafeNestProvider props (renders mounted (first # later)))) =
       Some (new_SafeNestClient first)"
    by (simp only: provided_after_renders) simp
  from a b c d e show ?thesis
    by (intro conjI)
qed

text \<open>
  C10. Under a provider the lookup succeeds with the value the provider hands out, and
  that value's readiness flag is true in the first render and in every later one.
\<close>

theorem provided_value_is_ready:
  "useSafeNestClient (Some (snd (SafeNestProvider props (renders mounted earlier)))) log =
     (Inr (snd (SafeNestProvider props (renders mounted earlier))), log)
   \<and> isReady (snd (SafeNestProvider props (renders mounted earlier)))"
proof (cases earlier)
  case Nil
  then show ?thesis
    by (simp add: useSafeNestClient_def provided_first)
next
  case (Cons first later)
  then show ?thesis
    by (simp only: provided_after_renders) (simp add: useSafeNestClient_def)
qed

end
